theory Spec2Isabelle
  imports Main
begin

section \<open>Python values\<close>

text \<open>
  The values a settings dictionary can hold and a caller can pass as
  \<^verbatim>\<open>production_value\<close>: a fragment of Python's objects, enough for every branch of
  \<^verbatim>\<open>dyna_settings.py\<close>. Callable objects are named by an identifier; what calling
  one does is given by a table (type \<open>callables\<close>), the way an object store gives the
  contents of an address.

  \<^item> \<open>PyFunction f\<close> is a function object made by \<^verbatim>\<open>def\<close> or \<^verbatim>\<open>lambda\<close>: the instances
    of \<^verbatim>\<open>types.FunctionType\<close>.
  \<^item> \<open>PyMethod f\<close> is a bound method or a builtin function (\<^verbatim>\<open>self.compute\<close>,
    \<^verbatim>\<open>os.getcwd\<close>): Python's \<^verbatim>\<open>callable()\<close> is true of it, but it is an instance of
    \<^verbatim>\<open>types.MethodType\<close> or \<^verbatim>\<open>types.BuiltinFunctionType\<close>, not of
    \<^verbatim>\<open>types.FunctionType\<close>.
\<close>

type_synonym fid = nat

datatype pyval =
    PyNone
  | PyBool bool
  | PyInt int
  | PyStr string
  | PyFunction fid
  | PyMethod fid

text \<open>
  The exceptions of the module. \<^verbatim>\<open>register\<close> raises the builtin \<^verbatim>\<open>Exception\<close> twice,
  with two messages: \<open>ReRegistering\<close> is \<^verbatim>\<open>Exception('Re-registering env_settings_class: ...')\<close>
  (the spec's DuplicateRegistration) and \<open>MultipleMatched\<close> is
  \<^verbatim>\<open>Exception('Multiple environment checks matched ...')\<close> (the spec's MultipleMatch).
  \<open>NoMatchingSettingsClass\<close> is the module's own class (the spec's NoMatch). The others
  come from caller-supplied code: the base class's \<^verbatim>\<open>NotImplementedError\<close>, a
  \<^verbatim>\<open>TypeError\<close> of a call, and anything else a subclass raises.
\<close>

datatype exception =
    ReRegistering
  | MultipleMatched
  | NoMatchingSettingsClass
  | NotImplementedError
  | TypeError
  | Raised string

type_synonym callables = "fid \<Rightarrow> pyval \<Rightarrow> exception + pyval"

text \<open>\<^verbatim>\<open>isinstance(val, types.FunctionType)\<close>.\<close>

fun isinstance_FunctionType :: "pyval \<Rightarrow> bool" where
  "isinstance_FunctionType (PyFunction f) = True"
| "isinstance_FunctionType v = False"

text \<open>Python's builtin \<^verbatim>\<open>callable(val)\<close>.\<close>

fun callable :: "pyval \<Rightarrow> bool" where
  "callable (PyFunction f) = True"
| "callable (PyMethod f) = True"
| "callable v = False"

text \<open>Truth value testing (\<^verbatim>\<open>if val:\<close>, \<^verbatim>\<open>not val\<close>).\<close>

fun truthy :: "pyval \<Rightarrow> bool" where
  "truthy PyNone = False"
| "truthy (PyBool b) = b"
| "truthy (PyInt i) = (i \<noteq> 0)"
| "truthy (PyStr s) = (s \<noteq> [])"
| "truthy (PyFunction f) = True"
| "truthy (PyMethod f) = True"

text \<open>
  The call \<^verbatim>\<open>val(production_value=production_value)\<close>: the table says what a callable
  does with the keyword argument; calling anything else is a \<^verbatim>\<open>TypeError\<close>.
\<close>

fun invoke :: "callables \<Rightarrow> pyval \<Rightarrow> pyval \<Rightarrow> exception + pyval" where
  "invoke call (PyFunction f) production_value = call f production_value"
| "invoke call (PyMethod f) production_value = call f production_value"
| "invoke call v production_value = Inl TypeError"

section \<open>class DynaSettings\<close>

text \<open>
  An instance of (a subclass of) \<^verbatim>\<open>DynaSettings\<close>. The two private attributes are
  fields. The methods a subclass supplies take no argument but \<^verbatim>\<open>self\<close>, so each is the
  outcome of calling it: \<open>env_detector\<close> and \<open>value_dict\<close> an exception (the base class
  raises \<^verbatim>\<open>NotImplementedError\<close>) or the returned value, and \<open>truth_value\<close> the answer
  of \<^verbatim>\<open>bool(self)\<close>. \<^verbatim>\<open>DynaSettings\<close> defines neither \<^verbatim>\<open>__bool__\<close> nor \<^verbatim>\<open>__len__\<close>, so
  its instances are true; an instance of a subclass that defines one of them (a
  \<^verbatim>\<open>__len__\<close> that returns 0, say) can be false.
\<close>

record DynaSettings =
  priv_value_dict :: "string \<rightharpoonup> pyval"
  priv_environ_vars_trump :: bool
  truth_value :: bool
  env_detector :: "exception + bool"
  value_dict :: "exception + (string \<rightharpoonup> pyval)"

text \<open>\<^verbatim>\<open>self._value_dict.update(self.value_dict())\<close>\<close>

definition init_values :: "DynaSettings \<Rightarrow> exception + DynaSettings" where
  "init_values self =
     (case value_dict self of
        Inl e \<Rightarrow> Inl e
      | Inr d \<Rightarrow> Inr (self\<lparr>priv_value_dict := priv_value_dict self ++ d\<rparr>))"

definition get_value :: "callables \<Rightarrow> DynaSettings \<Rightarrow> string \<Rightarrow> pyval \<Rightarrow> exception + pyval" where
  "get_value call self setting_name production_value =
     (case priv_value_dict self setting_name of
        Some val \<Rightarrow>
          (if isinstance_FunctionType val then invoke call val production_value
           else Inr val)
      | None \<Rightarrow> Inr production_value)"

section \<open>class DynaSettingsController\<close>

text \<open>
  Provider instances live in an object store and are known by their address: the
  controller's list and its \<^verbatim>\<open>detected_settings\<close> hold references, and
  \<^verbatim>\<open>init_values\<close> mutates the object they share.
\<close>

type_synonym addr = nat

record DynaSettingsController =
  dyna_settings_classes :: "addr list"
  detected_settings :: "addr option"
  did_find_multiple_matches :: bool
  environ_vars_trump :: bool

text \<open>\<^verbatim>\<open>__init__\<close>\<close>

definition new_DynaSettingsController :: DynaSettingsController where
  "new_DynaSettingsController =
     \<lparr>dyna_settings_classes = [], detected_settings = None,
      did_find_multiple_matches = False, environ_vars_trump = False\<rparr>"

text \<open>
  The truth value of \<^verbatim>\<open>self.detected_settings\<close>, which \<^verbatim>\<open>if self.detected_settings:\<close>
  and \<^verbatim>\<open>if not self.detected_settings:\<close> test: \<^verbatim>\<open>None\<close> is false, an instance is as
  true as its class makes it.
\<close>

definition detected_truth :: "(addr \<Rightarrow> DynaSettings) \<Rightarrow> DynaSettingsController \<Rightarrow> bool" where
  "detected_truth objs self =
     (case detected_settings self of
        None \<Rightarrow> False
      | Some a \<Rightarrow> truth_value (objs a))"

datatype log_record = WARNING | ERROR

text \<open>
  What calling a class with no argument does: the constructor raises, or it returns a
  new instance, of a subclass of \<^verbatim>\<open>DynaSettings\<close> or of something else.
\<close>

datatype constructed =
    CtorRaises exception
  | CtorProvider DynaSettings
  | CtorOther pyval

text \<open>
  The argument of \<^verbatim>\<open>register\<close>: an instance of \<^verbatim>\<open>DynaSettings\<close> (by address), any
  other object that is not a class, or a class.
\<close>

datatype pyobj =
    ProviderInstance addr
  | OtherObject pyval
  | TypeObject constructed

text \<open>
  What \<^verbatim>\<open>register\<close> reads and writes: the controller, the object store with its next
  free address, and the records handed to the logger \<^verbatim>\<open>LOG\<close>. \<open>py_eq x e\<close> is the
  answer of \<^verbatim>\<open>==\<close> between an argument \<open>x\<close> and the instance at address \<open>e\<close>, as the
  \<^verbatim>\<open>__eq__\<close> methods of their two classes decide it; where neither class defines
  \<^verbatim>\<open>__eq__\<close> (\<^verbatim>\<open>DynaSettings\<close> does not) two different objects are never equal and
  the table is false.
\<close>

record world =
  controller :: DynaSettingsController
  store :: "addr \<Rightarrow> DynaSettings"
  next_addr :: addr
  py_eq :: "pyobj \<Rightarrow> addr \<Rightarrow> bool"
  LOG :: "log_record list"

text \<open>\<^verbatim>\<open>x is e\<close>, for an argument and an element of the list.\<close>

fun is_object :: "pyobj \<Rightarrow> addr \<Rightarrow> bool" where
  "is_object (ProviderInstance a) e = (a = e)"
| "is_object x e = False"

text \<open>
  \<^verbatim>\<open>env_settings_class in self.dyna_settings_classes\<close>: true when some element of the
  list is the argument or compares equal to it.
\<close>

definition already_registered :: "world \<Rightarrow> pyobj \<Rightarrow> bool" where
  "already_registered w x =
     list_ex (\<lambda>e. is_object x e \<or> py_eq w x e) (dyna_settings_classes (controller w))"

text \<open>
  \<^verbatim>\<open>if is_type: env_settings_class = env_settings_class()\<close> (the result of
  \<^verbatim>\<open>issubclass\<close> is never read).
\<close>

fun instantiate :: "world \<Rightarrow> pyobj \<Rightarrow> exception + (pyobj \<times> world)" where
  "instantiate w (TypeObject (CtorRaises e)) = Inl e"
| "instantiate w (TypeObject (CtorProvider obj)) =
     Inr (ProviderInstance (next_addr w),
          w\<lparr>store := (store w)(next_addr w := obj), next_addr := Suc (next_addr w)\<rparr>)"
| "instantiate w (TypeObject (CtorOther v)) = Inr (OtherObject v, w)"
| "instantiate w obj = Inr (obj, w)"

text \<open>\<^verbatim>\<open>self.dyna_settings_classes.append(env_settings_class)\<close>\<close>

definition append_class :: "addr \<Rightarrow> DynaSettingsController \<Rightarrow> DynaSettingsController" where
  "append_class a self = self\<lparr>dyna_settings_classes := dyna_settings_classes self @ [a]\<rparr>"

text \<open>The branch \<^verbatim>\<open>if isinstance(env_settings_class, DynaSettings):\<close> of \<^verbatim>\<open>register\<close>.\<close>

definition register_instance :: "world \<Rightarrow> addr \<Rightarrow> exception option \<times> world" where
  "register_instance w a =
     (case env_detector (store w a) of
        Inl e \<Rightarrow> (Some e, w)
      | Inr detected \<Rightarrow>
          if detected then
            (if detected_truth (store w) (controller w) then
               (Some MultipleMatched,
                w\<lparr>controller := (controller w)\<lparr>did_find_multiple_matches := True\<rparr>\<rparr>)
             else
               (case init_values (store w a) of
                  Inl e \<Rightarrow> (Some e, w)
                | Inr obj \<Rightarrow>
                    (None,
                     w\<lparr>store := (store w)(a := obj),
                       controller := append_class a
                         ((controller w)
                            \<lparr>environ_vars_trump :=
                               (if \<not> environ_vars_trump (controller w)
                                then priv_environ_vars_trump obj
                                else environ_vars_trump (controller w)),
                             detected_settings := Some a\<rparr>)\<rparr>)))
          else (None, w\<lparr>controller := append_class a (controller w)\<rparr>))"

text \<open>
  \<^verbatim>\<open>register\<close>: the raised exception, if any, and the state the call leaves.
\<close>

definition register :: "world \<Rightarrow> pyobj \<Rightarrow> exception option \<times> world" where
  "register w env_settings_class =
     (if already_registered w env_settings_class then
        (Some ReRegistering, w\<lparr>LOG := LOG w @ [WARNING]\<rparr>)
      else
        (case instantiate w env_settings_class of
           Inl e \<Rightarrow> (Some e, w)
         | Inr (ProviderInstance a, w1) \<Rightarrow> register_instance w1 a
         | Inr (obj, w1) \<Rightarrow> (None, w1\<lparr>LOG := LOG w1 @ [ERROR]\<rparr>)))"

text \<open>
  A caller's sequence of \<^verbatim>\<open>register\<close> calls, each on the state the one before left
  (whether it returned or raised).
\<close>

fun register_calls :: "world \<Rightarrow> pyobj list \<Rightarrow> world" where
  "register_calls w [] = w"
| "register_calls w (x # xs) = register_calls (snd (register w x)) xs"

text \<open>\<^verbatim>\<open>set_environ_vars_trump\<close>\<close>

definition set_environ_vars_trump :: "bool \<Rightarrow> DynaSettingsController \<Rightarrow> DynaSettingsController" where
  "set_environ_vars_trump flag self = self\<lparr>environ_vars_trump := flag\<rparr>"

text \<open>\<^verbatim>\<open>os.environ.get(setting_name)\<close> followed by \<^verbatim>\<open>if val:\<close>: the variable's value
  when it is set and not empty.\<close>

definition environ_get_truthy :: "(string \<rightharpoonup> string) \<Rightarrow> string \<Rightarrow> string option" where
  "environ_get_truthy environ setting_name =
     (case environ setting_name of
        None \<Rightarrow> None
      | Some val \<Rightarrow> if val \<noteq> [] then Some val else None)"

text \<open>
  The body of \<^verbatim>\<open>if not self.detected_settings:\<close> in \<^verbatim>\<open>dyna_value\<close>: the
  \<^verbatim>\<open>production_value\<close> unless it is \<^verbatim>\<open>None\<close>.
\<close>

definition production_or_raise :: "pyval \<Rightarrow> exception + pyval" where
  "production_or_raise production_value =
     (if production_value \<noteq> PyNone then Inr production_value
      else Inl NoMatchingSettingsClass)"

text \<open>
  \<^verbatim>\<open>dyna_value\<close>, given the callables, the process environment \<^verbatim>\<open>os.environ\<close> and the
  object store. The detected provider is consulted when it is there and true.
\<close>

definition dyna_value ::
  "callables \<Rightarrow> (string \<rightharpoonup> string) \<Rightarrow> (addr \<Rightarrow> DynaSettings) \<Rightarrow> DynaSettingsController
     \<Rightarrow> string \<Rightarrow> pyval \<Rightarrow> exception + pyval" where
  "dyna_value call environ objs self setting_name production_value =
     (case (if environ_vars_trump self then environ_get_truthy environ setting_name else None) of
        Some val \<Rightarrow> Inr (PyStr val)
      | None \<Rightarrow>
          (case detected_settings self of
             None \<Rightarrow> production_or_raise production_value
           | Some a \<Rightarrow>
               if \<not> truth_value (objs a) then production_or_raise production_value
               else
                 (case get_value call (objs a) setting_name production_value of
                    Inl e \<Rightarrow> Inl e
                  | Inr val \<Rightarrow>
                      if environ_vars_trump self \<and> \<not> truthy val
                      then Inl NoMatchingSettingsClass
                      else Inr val)))"

text \<open>\<^verbatim>\<open>reset\<close>: four assignments to the attributes of \<^verbatim>\<open>self\<close>.\<close>

definition reset :: "DynaSettingsController \<Rightarrow> DynaSettingsController" where
  "reset self =
     self\<lparr>detected_settings := None, dyna_settings_classes := [],
          did_find_multiple_matches := False, environ_vars_trump := False\<rparr>"

section \<open>Example providers\<close>

text \<open>
  Concrete inputs: an instance of the base class (its two methods raise), the
  \<^verbatim>\<open>KristineDevSettings\<close> of the module's documentation, and further subclasses in its
  style. \<open>EmptySettings\<close> is an instance of a subclass whose \<^verbatim>\<open>__len__\<close> returns 0, so
  it is false. \<open>derive\<close> is a table of callables that compute a value from
  \<^verbatim>\<open>production_value\<close>. In \<open>example_world\<close> no class defines \<^verbatim>\<open>__eq__\<close>; in
  \<open>equal_world\<close> the class of the instance at address 0 defines an \<^verbatim>\<open>__eq__\<close> that
  returns \<^verbatim>\<open>True\<close>, so \<^verbatim>\<open>==\<close> answers true whenever that instance is on either side.
\<close>

definition DynaSettings_base :: DynaSettings where
  "DynaSettings_base =
     \<lparr>priv_value_dict = Map.empty, priv_environ_vars_trump = False, truth_value = True,
      env_detector = Inl NotImplementedError, value_dict = Inl NotImplementedError\<rparr>"

definition KristineDevSettings :: DynaSettings where
  "KristineDevSettings =
     \<lparr>priv_value_dict = Map.empty, priv_environ_vars_trump = False, truth_value = True,
      env_detector = Inr True,
      value_dict = Inr [''DBServer'' \<mapsto> PyStr ''192.168.56.101'',
                        ''DBUsername'' \<mapsto> PyStr ''dev'',
                        ''DBPassword'' \<mapsto> PyStr ''dev'']\<rparr>"

definition LeeDevSettings :: DynaSettings where
  "LeeDevSettings =
     \<lparr>priv_value_dict = Map.empty, priv_environ_vars_trump = False, truth_value = True,
      env_detector = Inr True,
      value_dict = Inr [''DBServer'' \<mapsto> PyStr ''127.0.0.1'']\<rparr>"

definition TestServerSettings :: DynaSettings where
  "TestServerSettings =
     \<lparr>priv_value_dict = Map.empty, priv_environ_vars_trump = False, truth_value = True,
      env_detector = Inr False,
      value_dict = Inr [''DBServer'' \<mapsto> PyStr ''10.100.1.7'']\<rparr>"

definition TrumpSettings :: DynaSettings where
  "TrumpSettings =
     \<lparr>priv_value_dict = Map.empty, priv_environ_vars_trump = True, truth_value = True,
      env_detector = Inr True,
      value_dict = Inr [''HOST'' \<mapsto> PyStr ''192.168.56.101'',
                        ''DBPort'' \<mapsto> PyStr '''']\<rparr>"

definition EmptySettings :: DynaSettings where
  "EmptySettings =
     \<lparr>priv_value_dict = Map.empty, priv_environ_vars_trump = True, truth_value = False,
      env_detector = Inr True,
      value_dict = Inr [''DBPort'' \<mapsto> PyStr '''']\<rparr>"

definition secret_dict :: "string \<rightharpoonup> pyval" where
  "secret_dict = [''SECRET'' \<mapsto> PyMethod 0, ''TOKEN'' \<mapsto> PyFunction 1,
                  ''NAME'' \<mapsto> PyStr ''vault'']"

definition SecretSettings :: DynaSettings where
  "SecretSettings =
     \<lparr>priv_value_dict = Map.empty, priv_environ_vars_trump = False, truth_value = True,
      env_detector = Inr True, value_dict = Inr secret_dict\<rparr>"

definition derive :: callables where
  "derive f production_value =
     (case production_value of
        PyStr s \<Rightarrow> Inr (PyStr (''derived-'' @ s))
      | _ \<Rightarrow> Inl TypeError)"

definition example_store :: "addr \<Rightarrow> DynaSettings" where
  "example_store =
     (\<lambda>a. DynaSettings_base)
       (0 := KristineDevSettings, 1 := LeeDevSettings, 2 := TestServerSettings,
        3 := TrumpSettings, 4 := EmptySettings)"

definition example_world :: world where
  "example_world =
     \<lparr>controller = new_DynaSettingsController, store = example_store,
      next_addr = 8, py_eq = (\<lambda>x e. False), LOG = []\<rparr>"

definition equal_world :: world where
  "equal_world =
     \<lparr>controller = new_DynaSettingsController, store = example_store,
      next_addr = 8, py_eq = (\<lambda>x e. e = 0 \<or> x = ProviderInstance 0), LOG = []\<rparr>"

section \<open>Registration\<close>

lemmas example_defs =
  example_world_def equal_world_def example_store_def new_DynaSettingsController_def
  KristineDevSettings_def LeeDevSettings_def TestServerSettings_def TrumpSettings_def
  EmptySettings_def DynaSettings_base_def register_def register_instance_def
  init_values_def append_class_def already_registered_def detected_truth_def

lemma registered_member:
  "a \<in> set (dyna_settings_classes (controller w)) \<Longrightarrow> already_registered w (ProviderInstance a)"
  by (auto simp: already_registered_def list_ex_iff)

text \<open>
  Where no class defines \<^verbatim>\<open>__eq__\<close>, the test \<^verbatim>\<open>in\<close> finds the instances of the list
  and nothing else.
\<close>

lemma already_registered_default:
  assumes "py_eq w = (\<lambda>x e. False)"
  shows "already_registered w (ProviderInstance a)
           = (a \<in> set (dyna_settings_classes (controller w)))"
    and "already_registered w (OtherObject v) = False"
    and "already_registered w (TypeObject k) = False"
  using assms by (auto simp: already_registered_def list_ex_iff)

lemma register_registered:
  "a \<in> set (dyna_settings_classes (controller w)) \<Longrightarrow>
   register w (ProviderInstance a) = (Some ReRegistering, w\<lparr>LOG := LOG w @ [WARNING]\<rparr>)"
  by (simp add: register_def registered_member)

lemma instantiate_controller:
  "instantiate w x = Inr (y, w1) \<Longrightarrow> controller w1 = controller w"
  by (induction w x rule: instantiate.induct) auto

lemma instantiate_store:
  "instantiate w x = Inr (y, w1) \<Longrightarrow> a \<noteq> next_addr w \<Longrightarrow> store w1 a = store w a"
  by (induction w x rule: instantiate.induct) auto

text \<open>A call that returns has appended the instance to the list.\<close>

lemma register_instance_returns:
  "register_instance w a = (None, w1) \<Longrightarrow> a \<in> set (dyna_settings_classes (controller w1))"
  by (auto simp: register_instance_def append_class_def split: sum.splits if_splits)

lemma register_returns_instance:
  "register w (ProviderInstance a) = (None, w1) \<Longrightarrow>
   a \<in> set (dyna_settings_classes (controller w1))"
  by (auto simp: register_def dest: register_instance_returns split: if_splits)

text \<open>
  A detected provider that is true survives every call of \<^verbatim>\<open>register\<close>; its address
  is in use, so no new instance takes its place in the store.
\<close>

lemma register_instance_detected:
  "detected_settings (controller w) = Some p \<Longrightarrow> truth_value (store w p) \<Longrightarrow>
   detected_settings (controller (snd (register_instance w a))) = Some p"
  by (auto simp: register_instance_def detected_truth_def append_class_def split: sum.splits)

lemma register_detected:
  assumes "detected_settings (controller w) = Some p"
    and "truth_value (store w p)"
    and "p < next_addr w"
  shows "detected_settings (controller (snd (register w x))) = Some p"
proof (cases "already_registered w x")
  case True
  with assms(1) show ?thesis by (simp add: register_def)
next
  case False
  show ?thesis
  proof (cases "instantiate w x")
    case (Inl e)
    with False assms(1) show ?thesis by (simp add: register_def)
  next
    case (Inr r)
    obtain y w1 where r: "r = (y, w1)" by (cases r)
    from Inr r have c: "controller w1 = controller w"
      by (simp add: instantiate_controller)
    from assms(3) have "p \<noteq> next_addr w" by simp
    with Inr r have "store w1 p = store w p"
      by (simp add: instantiate_store)
    with assms(2) have t: "truth_value (store w1 p)" by simp
    from c assms(1) have d: "detected_settings (controller w1) = Some p" by simp
    show ?thesis
    proof (cases y)
      case (ProviderInstance a)
      with False Inr r register_instance_detected [OF d t, of a] show ?thesis
        by (simp add: register_def)
    next
      case (OtherObject v)
      with False Inr r d show ?thesis by (simp add: register_def)
    next
      case (TypeObject k)
      with False Inr r d show ?thesis by (simp add: register_def)
    qed
  qed
qed

text \<open>
  The first instance whose detector answers true becomes the detected one (its
  \<^verbatim>\<open>value_dict()\<close> returning a dictionary).
\<close>

lemma register_first_match:
  assumes "detected_settings (controller w) = None"
    and "\<not> already_registered w (ProviderInstance p)"
    and "env_detector (store w p) = Inr True"
    and "value_dict (store w p) = Inr d"
  shows "fst (register w (ProviderInstance p)) = None
         \<and> detected_settings (controller (snd (register w (ProviderInstance p)))) = Some p"
  using assms
  by (simp add: register_def register_instance_def detected_truth_def init_values_def
      append_class_def)

text \<open>
  An instance that was registered by a call that returned, its detector answering
  true, is the detected one.
\<close>

lemma register_match_active:
  assumes "register w (ProviderInstance p) = (None, w1)"
    and "env_detector (store w p) = Inr True"
  shows "detected_settings (controller w1) = Some p"
  using assms
  by (auto simp: register_def register_instance_def append_class_def
      split: if_splits sum.splits)

text \<open>
  A second match given as a class: the new instance is made, its detector answers
  true, and the call raises in the same way.
\<close>

lemma register_second_match_type:
  assumes "detected_settings (controller w) = Some p"
    and "truth_value (store w p)"
    and "p < next_addr w"
    and "\<not> already_registered w (TypeObject (CtorProvider obj))"
    and "env_detector obj = Inr True"
  shows "fst (register w (TypeObject (CtorProvider obj))) = Some MultipleMatched
         \<and> did_find_multiple_matches
             (controller (snd (register w (TypeObject (CtorProvider obj)))))
         \<and> detected_settings
             (controller (snd (register w (TypeObject (CtorProvider obj))))) = Some p
         \<and> dyna_settings_classes
             (controller (snd (register w (TypeObject (CtorProvider obj)))))
             = dyna_settings_classes (controller w)"
  using assms by (simp add: register_def register_instance_def detected_truth_def)

text \<open>
  A class whose constructor raises never reaches the checks: the exception leaves
  \<^verbatim>\<open>register\<close> and nothing has changed, the log included.
\<close>

lemma register_constructor_raises:
  "\<not> already_registered w (TypeObject (CtorRaises e)) \<Longrightarrow>
   register w (TypeObject (CtorRaises e)) = (Some e, w)"
  by (simp add: register_def)

text \<open>
  C1, as the code has it. Let \<open>p\<close> be the detected provider, a true object at an
  address in use. Registering an instance \<open>q\<close> that \<^verbatim>\<open>in\<close> does not find in the list
  and whose \<^verbatim>\<open>env_detector()\<close> returns true raises the multiple-match exception, sets
  \<^verbatim>\<open>did_find_multiple_matches\<close> and changes nothing else: \<open>p\<close> stays the detected
  provider. More generally no call of \<^verbatim>\<open>register\<close>, whatever its argument and outcome,
  replaces \<open>p\<close>.
\<close>

theorem register_second_match:
  assumes "detected_settings (controller w) = Some p"
    and "truth_value (store w p)"
    and "p < next_addr w"
    and "\<not> already_registered w (ProviderInstance q)"
    and "env_detector (store w q) = Inr True"
  shows "register w (ProviderInstance q) =
           (Some MultipleMatched,
            w\<lparr>controller := (controller w)\<lparr>did_find_multiple_matches := True\<rparr>\<rparr>)
         \<and> did_find_multiple_matches (controller (snd (register w (ProviderInstance q))))
         \<and> detected_settings (controller (snd (register w (ProviderInstance q)))) = Some p
         \<and> (\<forall>x. detected_settings (controller (snd (register w x))) = Some p)"
proof -
  have raised: "register w (ProviderInstance q) =
      (Some MultipleMatched,
       w\<lparr>controller := (controller w)\<lparr>did_find_multiple_matches := True\<rparr>\<rparr>)"
    using assms by (simp add: register_def register_instance_def detected_truth_def)
  have kept: "\<forall>x. detected_settings (controller (snd (register w x))) = Some p"
    using assms(1,2,3) by (simp add: register_detected)
  from raised kept assms(1) show ?thesis by simp
qed

text \<open>
  Kristine's settings (address 0) are registered on a new controller and detected;
  then Lee's (address 1), which detect their environment too.
\<close>

theorem register_second_match_witness:
  "detected_settings (controller (snd (register example_world (ProviderInstance 0)))) = Some 0
   \<and> truth_value (store (snd (register example_world (ProviderInstance 0))) 0)
   \<and> 0 < next_addr (snd (register example_world (ProviderInstance 0)))
   \<and> \<not> already_registered (snd (register example_world (ProviderInstance 0)))
         (ProviderInstance 1)
   \<and> env_detector (store (snd (register example_world (ProviderInstance 0))) 1) = Inr True
   \<and> fst (register (snd (register example_world (ProviderInstance 0))) (ProviderInstance 1))
       = Some MultipleMatched
   \<and> did_find_multiple_matches (controller (snd
        (register (snd (register example_world (ProviderInstance 0))) (ProviderInstance 1))))
   \<and> detected_settings (controller (snd
        (register (snd (register example_world (ProviderInstance 0))) (ProviderInstance 1))))
       = Some 0"
proof -
  let ?w = "snd (register example_world (ProviderInstance 0))"
  have a: "detected_settings (controller ?w) = Some 0" by (simp add: example_defs)
  have t: "truth_value (store ?w 0)" by (simp add: example_defs)
  have n: "0 < next_addr ?w" by (simp add: example_defs)
  have b: "\<not> already_registered ?w (ProviderInstance 1)" by (simp add: example_defs)
  have c: "env_detector (store ?w 1) = Inr True" by (simp add: example_defs)
  from register_second_match [OF a t n b c] a t n b c show ?thesis by simp
qed

text \<open>
  The claim as the spec words it fails in two ways. The settings at address 4 are a
  false object: registered first they are the detected provider, yet Kristine's
  settings registered after them raise nothing and take their place. And in
  \<open>equal_world\<close>, where Kristine's settings compare equal to everything, Lee's
  settings registered after them are taken for a re-registration: that exception is
  raised and \<^verbatim>\<open>did_find_multiple_matches\<close> stays false.
\<close>

theorem register_second_match_counterexample:
  "fst (register example_world (ProviderInstance 4)) = None
   \<and> detected_settings (controller (snd (register example_world (ProviderInstance 4))))
       = Some 4
   \<and> env_detector (store (snd (register example_world (ProviderInstance 4))) 0) = Inr True
   \<and> fst (register (snd (register example_world (ProviderInstance 4))) (ProviderInstance 0))
       = None
   \<and> detected_settings (controller (snd
        (register (snd (register example_world (ProviderInstance 4))) (ProviderInstance 0))))
       = Some 0
   \<and> did_find_multiple_matches (controller (snd
        (register (snd (register example_world (ProviderInstance 4))) (ProviderInstance 0))))
       = False
   \<and> fst (register equal_world (ProviderInstance 0)) = None
   \<and> detected_settings (controller (snd (register equal_world (ProviderInstance 0))))
       = Some 0
   \<and> truth_value (store (snd (register equal_world (ProviderInstance 0))) 0)
   \<and> dyna_settings_classes (controller (snd (register equal_world (ProviderInstance 0))))
       = [0]
   \<and> env_detector (store (snd (register equal_world (ProviderInstance 0))) 1) = Inr True
   \<and> fst (register (snd (register equal_world (ProviderInstance 0))) (ProviderInstance 1))
       = Some ReRegistering
   \<and> did_find_multiple_matches (controller (snd
        (register (snd (register equal_world (ProviderInstance 0))) (ProviderInstance 1))))
       = False"
  by (simp add: example_defs)

text \<open>\<^verbatim>\<open>register\<close> never removes an entry of the list.\<close>

lemma register_instance_classes_mono:
  "set (dyna_settings_classes (controller w))
     \<subseteq> set (dyna_settings_classes (controller (snd (register_instance w a))))"
  by (auto simp: register_instance_def append_class_def split: sum.splits)

lemma register_classes_mono:
  "set (dyna_settings_classes (controller w))
     \<subseteq> set (dyna_settings_classes (controller (snd (register w x))))"
proof (cases "already_registered w x")
  case True
  then show ?thesis by (simp add: register_def)
next
  case False
  show ?thesis
  proof (cases "instantiate w x")
    case (Inl e)
    with False show ?thesis by (simp add: register_def)
  next
    case (Inr r)
    obtain y w1 where r: "r = (y, w1)" by (cases r)
    with Inr have c: "controller w1 = controller w" by (simp add: instantiate_controller)
    show ?thesis
    proof (cases y)
      case (ProviderInstance a)
      with False Inr r c register_instance_classes_mono [of w1 a] show ?thesis
        by (simp add: register_def)
    next
      case (OtherObject v)
      with False Inr r c show ?thesis by (simp add: register_def)
    next
      case (TypeObject k)
      with False Inr r c show ?thesis by (simp add: register_def)
    qed
  qed
qed

lemma register_calls_classes_mono:
  "a \<in> set (dyna_settings_classes (controller w)) \<Longrightarrow>
   a \<in> set (dyna_settings_classes (controller (register_calls w xs)))"
proof (induction xs arbitrary: w)
  case Nil
  then show ?case by simp
next
  case (Cons x xs)
  from Cons.prems register_classes_mono [of w x]
  have "a \<in> set (dyna_settings_classes (controller (snd (register w x))))" by blast
  then show ?case using Cons.IH by simp
qed

text \<open>
  A call that raised the multiple-match exception has not appended the instance: the
  same call again is not a re-registration and raises the same exception.
\<close>

lemma register_refused_again:
  assumes "detected_settings (controller w) = Some p"
    and "truth_value (store w p)"
    and "\<not> already_registered w (ProviderInstance q)"
    and "env_detector (store w q) = Inr True"
  shows "fst (register (snd (register w (ProviderInstance q))) (ProviderInstance q))
           = Some MultipleMatched"
  using assms
  by (simp add: register_def register_instance_def detected_truth_def already_registered_def)

text \<open>
  C2, as the code has it. Once a call \<^verbatim>\<open>register(a)\<close> with a provider instance has
  returned, whether or not the detector matched, every later call with the same
  instance raises the re-registering exception: right away and after any further calls
  of \<^verbatim>\<open>register\<close>, and whatever the objects of the store (so whatever
  \<^verbatim>\<open>env_detector()\<close> would return now). The failed call leaves the controller and the
  store as they were; it only hands a warning to the logger.
\<close>

theorem register_twice:
  assumes "register w (ProviderInstance a) = (None, w1)"
  shows "register ((register_calls w1 xs)\<lparr>store := objs\<rparr>) (ProviderInstance a) =
           (Some ReRegistering,
            (register_calls w1 xs)\<lparr>store := objs, LOG := LOG (register_calls w1 xs) @ [WARNING]\<rparr>)
         \<and> register (w1\<lparr>store := objs\<rparr>) (ProviderInstance a) =
           (Some ReRegistering, w1\<lparr>store := objs, LOG := LOG w1 @ [WARNING]\<rparr>)
         \<and> controller (snd (register (w1\<lparr>store := objs\<rparr>) (ProviderInstance a))) = controller w1"
proof -
  from assms have a1: "a \<in> set (dyna_settings_classes (controller w1))"
    by (rule register_returns_instance)
  then have a2: "a \<in> set (dyna_settings_classes (controller (register_calls w1 xs)))"
    by (rule register_calls_classes_mono)
  from a1 have first: "register (w1\<lparr>store := objs\<rparr>) (ProviderInstance a) =
      (Some ReRegistering, w1\<lparr>store := objs, LOG := LOG w1 @ [WARNING]\<rparr>)"
    by (simp add: register_registered)
  from a2 have later: "register ((register_calls w1 xs)\<lparr>store := objs\<rparr>) (ProviderInstance a) =
      (Some ReRegistering,
       (register_calls w1 xs)\<lparr>store := objs, LOG := LOG (register_calls w1 xs) @ [WARNING]\<rparr>)"
    by (simp add: register_registered)
  from first later show ?thesis by simp
qed

text \<open>
  The test server's settings (address 2) do not detect their environment and are
  registered for the record; registered again, when their detector would answer true,
  they are refused.
\<close>

theorem register_twice_witness:
  "register example_world (ProviderInstance 2) =
     (None, example_world\<lparr>controller := append_class 2 new_DynaSettingsController\<rparr>)
   \<and> register
        (example_world\<lparr>controller := append_class 2 new_DynaSettingsController,
                       store := example_store(2 := TestServerSettings\<lparr>env_detector := Inr True\<rparr>)\<rparr>)
        (ProviderInstance 2) =
       (Some ReRegistering,
        example_world\<lparr>controller := append_class 2 new_DynaSettingsController,
                      store := example_store(2 := TestServerSettings\<lparr>env_detector := Inr True\<rparr>),
                      LOG := [WARNING]\<rparr>)"
proof -
  have first: "register example_world (ProviderInstance 2) =
     (None, example_world\<lparr>controller := append_class 2 new_DynaSettingsController\<rparr>)"
    by (simp add: example_defs)
  have log: "LOG example_world = []"
    by (simp add: example_world_def)
  from register_twice [OF first,
      where xs = "[]" and objs = "example_store(2 := TestServerSettings\<lparr>env_detector := Inr True\<rparr>)"]
    first log
  show ?thesis by simp
qed

text \<open>
  The claim as the spec words it fails when the first call raised. With Kristine's
  settings detected, \<^verbatim>\<open>register\<close> called twice with Lee's, whose detector answers true,
  raises the multiple-match exception both times; called twice with an instance of the
  base class (address 7) it raises that class's \<^verbatim>\<open>NotImplementedError\<close> both times.
\<close>

theorem register_twice_counterexample:
  "env_detector (store (snd (register example_world (ProviderInstance 0))) 1) = Inr True
   \<and> fst (register (snd (register example_world (ProviderInstance 0))) (ProviderInstance 1))
       = Some MultipleMatched
   \<and> fst (register
        (snd (register (snd (register example_world (ProviderInstance 0))) (ProviderInstance 1)))
        (ProviderInstance 1)) = Some MultipleMatched
   \<and> fst (register
        (snd (register (snd (register example_world (ProviderInstance 0))) (ProviderInstance 1)))
        (ProviderInstance 1)) \<noteq> Some ReRegistering
   \<and> fst (register example_world (ProviderInstance 7)) = Some NotImplementedError
   \<and> fst (register (snd (register example_world (ProviderInstance 7))) (ProviderInstance 7))
       = Some NotImplementedError"
  by (simp add: example_defs)

text \<open>A true \<^verbatim>\<open>environ_vars_trump\<close> survives every call of \<^verbatim>\<open>register\<close>.\<close>

lemma register_instance_trump:
  "environ_vars_trump (controller w) \<Longrightarrow>
   environ_vars_trump (controller (snd (register_instance w a)))"
  by (auto simp: register_instance_def append_class_def split: sum.splits)

lemma register_trump:
  "environ_vars_trump (controller w) \<Longrightarrow> environ_vars_trump (controller (snd (register w x)))"
  by (auto simp: register_def register_instance_trump dest: instantiate_controller
      split: sum.splits pyobj.splits)

lemma register_calls_trump:
  "environ_vars_trump (controller w) \<Longrightarrow> environ_vars_trump (controller (register_calls w xs))"
  by (induction xs arbitrary: w) (auto simp: register_trump)

lemma register_calls_append:
  "register_calls w (xs @ ys) = register_calls (register_calls w xs) ys"
  by (induction xs arbitrary: w) auto

text \<open>
  C7. If \<^verbatim>\<open>environ_vars_trump\<close> is true after the calls \<open>xs\<close> of \<^verbatim>\<open>register\<close>, it is true
  after one more call, whatever its argument and outcome, and after any further calls
  \<open>ys\<close>.
\<close>

theorem environ_vars_trump_stays:
  assumes "environ_vars_trump (controller (register_calls w xs))"
  shows "environ_vars_trump (controller (register_calls w (xs @ ys)))
         \<and> environ_vars_trump (controller (snd (register (register_calls w xs) x)))"
  using assms by (simp add: register_calls_append register_calls_trump register_trump)

text \<open>
  The flag is set by \<^verbatim>\<open>set_environ_vars_trump\<close> and the test server's settings are
  registered. Kristine's settings, whose own \<^verbatim>\<open>environ_vars_trump\<close> is false, then
  become the detected ones, and Lee's are refused: the flag is still true.
\<close>

theorem environ_vars_trump_stays_witness:
  "environ_vars_trump (controller (register_calls
      (example_world\<lparr>controller := set_environ_vars_trump True new_DynaSettingsController\<rparr>)
      [ProviderInstance 2]))
   \<and> priv_environ_vars_trump (store example_world 0) = False
   \<and> detected_settings (controller (snd (register (register_calls
        (example_world\<lparr>controller := set_environ_vars_trump True new_DynaSettingsController\<rparr>)
        [ProviderInstance 2]) (ProviderInstance 0)))) = Some 0
   \<and> environ_vars_trump (controller (snd (register (register_calls
        (example_world\<lparr>controller := set_environ_vars_trump True new_DynaSettingsController\<rparr>)
        [ProviderInstance 2]) (ProviderInstance 0))))
   \<and> environ_vars_trump (controller (register_calls
        (example_world\<lparr>controller := set_environ_vars_trump True new_DynaSettingsController\<rparr>)
        ([ProviderInstance 2] @ [ProviderInstance 0, ProviderInstance 1])))"
proof -
  let ?w = "example_world\<lparr>controller := set_environ_vars_trump True new_DynaSettingsController\<rparr>"
  have on: "environ_vars_trump (controller (register_calls ?w [ProviderInstance 2]))"
    by (simp add: example_defs set_environ_vars_trump_def)
  have off: "priv_environ_vars_trump (store example_world 0) = False"
    by (simp add: example_defs)
  have active: "detected_settings (controller (snd (register
      (register_calls ?w [ProviderInstance 2]) (ProviderInstance 0)))) = Some 0"
    by (simp add: example_defs set_environ_vars_trump_def)
  from environ_vars_trump_stays [OF on] on off active show ?thesis by blast
qed

text \<open>
  C9, as the code has it. An object that is not an instance of \<^verbatim>\<open>DynaSettings\<close>, given
  as it is or returned by the constructor of the class given, and that \<^verbatim>\<open>in\<close> does not
  find in the list, is not registered: the call returns without raising, hands one
  error to the logger and changes nothing else (the controller with its list, its
  detected provider and its two flags, and the store). Where no class defines
  \<^verbatim>\<open>__eq__\<close>, \<^verbatim>\<open>in\<close> finds no such object.
\<close>

theorem register_not_provider:
  "(\<not> already_registered w (OtherObject v) \<longrightarrow>
      register w (OtherObject v) = (None, w\<lparr>LOG := LOG w @ [ERROR]\<rparr>)
      \<and> controller (snd (register w (OtherObject v))) = controller w
      \<and> store (snd (register w (OtherObject v))) = store w)
   \<and> (\<not> already_registered w (TypeObject (CtorOther v)) \<longrightarrow>
      register w (TypeObject (CtorOther v)) = (None, w\<lparr>LOG := LOG w @ [ERROR]\<rparr>)
      \<and> controller (snd (register w (TypeObject (CtorOther v)))) = controller w
      \<and> store (snd (register w (TypeObject (CtorOther v)))) = store w)
   \<and> (py_eq w = (\<lambda>x e. False) \<longrightarrow>
      register w (OtherObject v) = (None, w\<lparr>LOG := LOG w @ [ERROR]\<rparr>)
      \<and> register w (TypeObject (CtorOther v)) = (None, w\<lparr>LOG := LOG w @ [ERROR]\<rparr>))"
proof -
  have direct: "register w (OtherObject v) = (None, w\<lparr>LOG := LOG w @ [ERROR]\<rparr>)"
    if "\<not> already_registered w (OtherObject v)"
    using that by (simp add: register_def)
  have made: "register w (TypeObject (CtorOther v)) = (None, w\<lparr>LOG := LOG w @ [ERROR]\<rparr>)"
    if "\<not> already_registered w (TypeObject (CtorOther v))"
    using that by (simp add: register_def)
  have none: "\<not> already_registered w (OtherObject v)
      \<and> \<not> already_registered w (TypeObject (CtorOther v))"
    if "py_eq w = (\<lambda>x e. False)"
    using that by (simp add: already_registered_default)
  from direct made none show ?thesis by simp
qed

text \<open>
  With the test server's settings in the list, a string and the class \<^verbatim>\<open>int\<close> are
  turned away.
\<close>

theorem register_not_provider_witness:
  "\<not> already_registered (snd (register example_world (ProviderInstance 2)))
       (OtherObject (PyStr ''KristineDevSettings''))
   \<and> \<not> already_registered (snd (register example_world (ProviderInstance 2)))
       (TypeObject (CtorOther (PyInt 0)))
   \<and> dyna_settings_classes (controller (snd (register example_world (ProviderInstance 2))))
       = [2]
   \<and> register (snd (register example_world (ProviderInstance 2)))
        (OtherObject (PyStr ''KristineDevSettings''))
       = (None, (snd (register example_world (ProviderInstance 2)))\<lparr>LOG := [ERROR]\<rparr>)
   \<and> register (snd (register example_world (ProviderInstance 2)))
        (TypeObject (CtorOther (PyInt 0)))
       = (None, (snd (register example_world (ProviderInstance 2)))\<lparr>LOG := [ERROR]\<rparr>)"
proof -
  let ?w = "snd (register example_world (ProviderInstance 2))"
  have a: "\<not> already_registered ?w (OtherObject (PyStr ''KristineDevSettings''))"
    by (simp add: example_defs)
  have b: "\<not> already_registered ?w (TypeObject (CtorOther (PyInt 0)))"
    by (simp add: example_defs)
  have c: "dyna_settings_classes (controller ?w) = [2]"
    by (simp add: example_defs)
  have log: "LOG ?w = []"
    by (simp add: example_defs)
  from register_not_provider [of ?w "PyStr ''KristineDevSettings''"]
    register_not_provider [of ?w "PyInt 0"] a b c log
  show ?thesis by simp
qed

text \<open>
  The claim as the spec words it fails for a class whose constructor raises (the
  exception leaves \<^verbatim>\<open>register\<close> and nothing is logged), and for an object that compares
  equal to a registered instance: in \<open>equal_world\<close>, with Kristine's settings
  registered, the string is taken for a re-registration.
\<close>

theorem register_not_provider_counterexample:
  "register example_world (TypeObject (CtorRaises TypeError)) = (Some TypeError, example_world)
   \<and> dyna_settings_classes (controller (snd (register equal_world (ProviderInstance 0))))
       = [0]
   \<and> fst (register (snd (register equal_world (ProviderInstance 0)))
        (OtherObject (PyStr ''KristineDevSettings''))) = Some ReRegistering"
  by (simp add: example_defs)

section \<open>Reset\<close>

text \<open>
  C8. \<^verbatim>\<open>reset\<close> turns every controller into the one \<^verbatim>\<open>__init__\<close> makes: no detected
  provider, an empty list, both flags false. So \<^verbatim>\<open>register\<close> and \<^verbatim>\<open>dyna_value\<close> do on a
  reset controller what they do on a new one (the objects of the store being the same).
\<close>

theorem reset_new:
  "reset self = new_DynaSettingsController
   \<and> detected_settings (reset self) = None
   \<and> dyna_settings_classes (reset self) = []
   \<and> did_find_multiple_matches (reset self) = False
   \<and> environ_vars_trump (reset self) = False
   \<and> register (w\<lparr>controller := reset (controller w)\<rparr>) x
       = register (w\<lparr>controller := new_DynaSettingsController\<rparr>) x
   \<and> dyna_value call environ objs (reset self) setting_name production_value
       = dyna_value call environ objs new_DynaSettingsController setting_name production_value"
proof -
  have eq: "reset c = new_DynaSettingsController" for c
    by (simp add: reset_def new_DynaSettingsController_def)
  have fields: "detected_settings new_DynaSettingsController = None
      \<and> dyna_settings_classes new_DynaSettingsController = []
      \<and> did_find_multiple_matches new_DynaSettingsController = False
      \<and> environ_vars_trump new_DynaSettingsController = False"
    by (simp add: new_DynaSettingsController_def)
  from fields show ?thesis by (simp add: eq)
qed

text \<open>
  A controller with a detected provider that asked for the environment to win, a list
  of two and a recorded double match, reset.
\<close>

theorem reset_new_witness:
  "controller (register_calls example_world
       [ProviderInstance 2, ProviderInstance 3, ProviderInstance 1])
     = \<lparr>dyna_settings_classes = [2, 3], detected_settings = Some 3,
        did_find_multiple_matches = True, environ_vars_trump = True\<rparr>
   \<and> reset (controller (register_calls example_world
       [ProviderInstance 2, ProviderInstance 3, ProviderInstance 1]))
     = new_DynaSettingsController"
proof -
  have before: "controller (register_calls example_world
       [ProviderInstance 2, ProviderInstance 3, ProviderInstance 1])
     = \<lparr>dyna_settings_classes = [2, 3], detected_settings = Some 3,
        did_find_multiple_matches = True, environ_vars_trump = True\<rparr>"
    by (simp add: example_defs)
  from reset_new [of "controller (register_calls example_world
       [ProviderInstance 2, ProviderInstance 3, ProviderInstance 1])"] before
  show ?thesis by simp
qed

section \<open>Resolving values\<close>

text \<open>
  C3. With no detected provider and \<^verbatim>\<open>environ_vars_trump\<close> false, \<^verbatim>\<open>dyna_value\<close> returns
  \<^verbatim>\<open>production_value\<close> whenever it is not \<^verbatim>\<open>None\<close> (an empty string or a zero is
  returned too), and raises \<^verbatim>\<open>NoMatchingSettingsClass\<close> when it is \<^verbatim>\<open>None\<close>.
\<close>

theorem dyna_value_no_provider:
  assumes "detected_settings self = None"
    and "\<not> environ_vars_trump self"
  shows "(production_value \<noteq> PyNone \<longrightarrow>
            dyna_value call environ objs self setting_name production_value
              = Inr production_value)
         \<and> (production_value = PyNone \<longrightarrow>
            dyna_value call environ objs self setting_name production_value
              = Inl NoMatchingSettingsClass)"
  using assms by (simp add: dyna_value_def production_or_raise_def)

theorem dyna_value_no_provider_witness:
  "detected_settings new_DynaSettingsController = None
   \<and> \<not> environ_vars_trump new_DynaSettingsController
   \<and> dyna_value derive Map.empty example_store new_DynaSettingsController
        ''DBServer'' (PyStr ''127.0.0.1'') = Inr (PyStr ''127.0.0.1'')
   \<and> dyna_value derive Map.empty example_store new_DynaSettingsController
        ''ADMIN_LOGIN'' PyNone = Inl NoMatchingSettingsClass"
proof -
  have a: "detected_settings new_DynaSettingsController = None"
    by (simp add: new_DynaSettingsController_def)
  have b: "\<not> environ_vars_trump new_DynaSettingsController"
    by (simp add: new_DynaSettingsController_def)
  from dyna_value_no_provider [OF a b, where production_value = "PyStr ''127.0.0.1''"
        and call = derive and environ = Map.empty and objs = example_store
        and setting_name = "''DBServer''"]
    dyna_value_no_provider [OF a b, where production_value = PyNone
        and call = derive and environ = Map.empty and objs = example_store
        and setting_name = "''ADMIN_LOGIN''"]
    a b
  show ?thesis by simp
qed

text \<open>
  C5. With \<^verbatim>\<open>environ_vars_trump\<close> true and the environment variable named
  \<^verbatim>\<open>setting_name\<close> set to a string that is not empty, \<^verbatim>\<open>dyna_value\<close> returns that string:
  for every controller otherwise (detected provider or none), every store, every
  table of callables and every \<^verbatim>\<open>production_value\<close>.
\<close>

theorem dyna_value_environ_trumps:
  assumes "environ_vars_trump self"
    and "environ setting_name = Some val"
    and "val \<noteq> []"
  shows "dyna_value call environ objs self setting_name production_value = Inr (PyStr val)"
  using assms by (simp add: dyna_value_def environ_get_truthy_def)

text \<open>
  The settings at address 3 ask for the environment to win and give
  \<^verbatim>\<open>'192.168.56.101'\<close> for \<^verbatim>\<open>HOST\<close>; the environment has \<^verbatim>\<open>HOST=10.0.0.9\<close>.
\<close>

theorem dyna_value_environ_trumps_witness:
  "environ_vars_trump (controller (snd (register example_world (ProviderInstance 3))))
   \<and> detected_settings (controller (snd (register example_world (ProviderInstance 3)))) = Some 3
   \<and> get_value derive (store (snd (register example_world (ProviderInstance 3))) 3)
        ''HOST'' (PyStr ''anything'') = Inr (PyStr ''192.168.56.101'')
   \<and> dyna_value derive [''HOST'' \<mapsto> ''10.0.0.9'']
        (store (snd (register example_world (ProviderInstance 3))))
        (controller (snd (register example_world (ProviderInstance 3))))
        ''HOST'' (PyStr ''anything'') = Inr (PyStr ''10.0.0.9'')"
proof -
  let ?w = "snd (register example_world (ProviderInstance 3))"
  have a: "environ_vars_trump (controller ?w)" by (simp add: example_defs)
  have b: "[''HOST'' \<mapsto> ''10.0.0.9''] ''HOST'' = Some ''10.0.0.9''" by simp
  have c: "''10.0.0.9'' \<noteq> []" by simp
  have d: "detected_settings (controller ?w) = Some 3" by (simp add: example_defs)
  have e: "get_value derive (store ?w 3) ''HOST'' (PyStr ''anything'')
             = Inr (PyStr ''192.168.56.101'')"
    by (simp add: example_defs get_value_def)
  from dyna_value_environ_trumps [where environ = "[''HOST'' \<mapsto> ''10.0.0.9'']"
      and setting_name = "''HOST''" and call = derive and objs = "store ?w"
      and production_value = "PyStr ''anything''", OF a b c] a d e
  show ?thesis by simp
qed




text \<open>
  C10. With \<^verbatim>\<open>environ_vars_trump\<close> true, the environment variable unset or empty, and no
  detected provider, \<^verbatim>\<open>dyna_value\<close> returns every \<^verbatim>\<open>production_value\<close> that is not
  \<^verbatim>\<open>None\<close>, false ones such as the empty string included: the test \<^verbatim>\<open>not val\<close> is only
  reached with a detected provider.
\<close>

theorem dyna_value_trump_no_provider:
  assumes "environ_vars_trump self"
    and "environ setting_name = None \<or> environ setting_name = Some []"
    and "detected_settings self = None"
    and "production_value \<noteq> PyNone"
  shows "dyna_value call environ objs self setting_name production_value
           = Inr production_value"
  using assms by (auto simp: dyna_value_def environ_get_truthy_def production_or_raise_def)

text \<open>\<^verbatim>\<open>DBPort\<close> with the empty string for \<^verbatim>\<open>production_value\<close>, on a new controller with
  the flag set by \<^verbatim>\<open>set_environ_vars_trump\<close>, the variable being set but empty.\<close>

theorem dyna_value_trump_no_provider_witness:
  "environ_vars_trump (set_environ_vars_trump True new_DynaSettingsController)
   \<and> [''DBPort'' \<mapsto> ''''] ''DBPort'' = Some []
   \<and> detected_settings (set_environ_vars_trump True new_DynaSettingsController) = None
   \<and> PyStr '''' \<noteq> PyNone
   \<and> \<not> truthy (PyStr '''')
   \<and> dyna_value derive [''DBPort'' \<mapsto> ''''] example_store
        (set_environ_vars_trump True new_DynaSettingsController) ''DBPort'' (PyStr '''')
       = Inr (PyStr '''')"
proof -
  let ?c = "set_environ_vars_trump True new_DynaSettingsController"
  have a: "environ_vars_trump ?c"
    by (simp add: set_environ_vars_trump_def)
  have b: "[''DBPort'' \<mapsto> ''''] ''DBPort'' = Some []" by simp
  have b': "[''DBPort'' \<mapsto> ''''] ''DBPort'' = None \<or> [''DBPort'' \<mapsto> ''''] ''DBPort'' = Some []"
    by simp
  have c: "detected_settings ?c = None"
    by (simp add: set_environ_vars_trump_def new_DynaSettingsController_def)
  have d: "PyStr '''' \<noteq> PyNone" by simp
  have e: "\<not> truthy (PyStr '''')" by simp
  from dyna_value_trump_no_provider [where environ = "[''DBPort'' \<mapsto> '''']"
      and setting_name = "''DBPort''" and call = derive and objs = example_store,
      OF a b' c d] a b c d e
  show ?thesis by simp
qed

section \<open>The provider's lookup\<close>

text \<open>
  C4, as the code has it. \<^verbatim>\<open>get_value\<close> returns \<^verbatim>\<open>production_value\<close> unchanged when the
  name is not a key of \<^verbatim>\<open>_value_dict\<close>; when the stored entry is a function object (an
  instance of \<^verbatim>\<open>types.FunctionType\<close>) it returns what calling the entry with the
  keyword argument \<^verbatim>\<open>production_value\<close> returns or raises; every other stored entry,
  callable or not, is returned as it is.
\<close>

theorem get_value_cases:
  "(priv_value_dict self setting_name = None \<longrightarrow>
      get_value call self setting_name production_value = Inr production_value)
   \<and> (\<forall>val. priv_value_dict self setting_name = Some val \<and> isinstance_FunctionType val \<longrightarrow>
      callable val
      \<and> get_value call self setting_name production_value = invoke call val production_value)
   \<and> (\<forall>f. priv_value_dict self setting_name = Some (PyFunction f) \<longrightarrow>
      get_value call self setting_name production_value = call f production_value)
   \<and> (\<forall>val. priv_value_dict self setting_name = Some val \<and> \<not> isinstance_FunctionType val \<longrightarrow>
      get_value call self setting_name production_value = Inr val)"
proof -
  have fn: "isinstance_FunctionType val \<Longrightarrow> callable val" for val
    by (cases val) simp_all
  show ?thesis
    by (auto simp: get_value_def fn)
qed

text \<open>
  The secret settings after \<^verbatim>\<open>init_values\<close>: \<^verbatim>\<open>PORT\<close> is no key, \<^verbatim>\<open>TOKEN\<close> is a
  function, \<^verbatim>\<open>NAME\<close> a string.
\<close>

theorem get_value_cases_witness:
  "init_values SecretSettings = Inr (SecretSettings\<lparr>priv_value_dict := secret_dict\<rparr>)
   \<and> get_value derive (SecretSettings\<lparr>priv_value_dict := secret_dict\<rparr>)
        ''PORT'' (PyInt 80) = Inr (PyInt 80)
   \<and> get_value derive (SecretSettings\<lparr>priv_value_dict := secret_dict\<rparr>)
        ''TOKEN'' (PyStr ''abc'') = Inr (PyStr ''derived-abc'')
   \<and> get_value derive (SecretSettings\<lparr>priv_value_dict := secret_dict\<rparr>)
        ''NAME'' (PyStr ''abc'') = Inr (PyStr ''vault'')"
proof -
  let ?self = "SecretSettings\<lparr>priv_value_dict := secret_dict\<rparr>"
  have init: "init_values SecretSettings = Inr ?self"
    by (simp add: init_values_def SecretSettings_def)
  have port: "priv_value_dict ?self ''PORT'' = None"
    by (simp add: secret_dict_def)
  have token: "priv_value_dict ?self ''TOKEN'' = Some (PyFunction 1)"
    by (simp add: secret_dict_def)
  have name: "priv_value_dict ?self ''NAME'' = Some (PyStr ''vault'')"
    by (simp add: secret_dict_def)
  have derived: "derive 1 (PyStr ''abc'') = Inr (PyStr ''derived-abc'')"
    by (simp add: derive_def)
  from get_value_cases [of ?self "''PORT''" derive "PyInt 80"] port
  have r1: "get_value derive ?self ''PORT'' (PyInt 80) = Inr (PyInt 80)"
    by blast
  from get_value_cases [of ?self "''TOKEN''" derive "PyStr ''abc''"] token derived
  have r2: "get_value derive ?self ''TOKEN'' (PyStr ''abc'') = Inr (PyStr ''derived-abc'')"
    by simp
  from get_value_cases [of ?self "''NAME''" derive "PyStr ''abc''"] name
  have r3: "get_value derive ?self ''NAME'' (PyStr ''abc'') = Inr (PyStr ''vault'')"
    by simp
  from init r1 r2 r3 show ?thesis by blast
qed

text \<open>
  The claim as the spec words it fails for a callable that is not a function object.
  \<^verbatim>\<open>SECRET\<close> is stored as a bound method: \<^verbatim>\<open>callable()\<close> is true of it and calling it
  with \<^verbatim>\<open>production_value='abc'\<close> would give \<^verbatim>\<open>'derived-abc'\<close>, but \<^verbatim>\<open>get_value\<close> returns
  the method itself, not called.
\<close>

theorem get_value_callable_counterexample:
  "init_values SecretSettings = Inr (SecretSettings\<lparr>priv_value_dict := secret_dict\<rparr>)
   \<and> priv_value_dict (SecretSettings\<lparr>priv_value_dict := secret_dict\<rparr>) ''SECRET''
       = Some (PyMethod 0)
   \<and> callable (PyMethod 0)
   \<and> invoke derive (PyMethod 0) (PyStr ''abc'') = Inr (PyStr ''derived-abc'')
   \<and> get_value derive (SecretSettings\<lparr>priv_value_dict := secret_dict\<rparr>)
        ''SECRET'' (PyStr ''abc'') = Inr (PyMethod 0)
   \<and> get_value derive (SecretSettings\<lparr>priv_value_dict := secret_dict\<rparr>)
        ''SECRET'' (PyStr ''abc'') \<noteq> invoke derive (PyMethod 0) (PyStr ''abc'')"
  by (simp add: init_values_def SecretSettings_def secret_dict_def get_value_def derive_def)

end
